theory Spec2Isabelle
  imports Main "HOL-Library.AList" "HOL-Library.Finite_Map"
begin

section \<open>JavaScript values, errors and built-ins\<close>

text \<open>
  The gateway is JavaScript. Values that cross the model are of one type \<open>jsval\<close>:
  \<open>undefined\<close>, \<open>null\<close>, booleans, numbers (integers and \<open>NaN\<close>; fractions are not
  modelled), strings, arrays and plain objects. An object is the list of its own
  enumerable properties in enumeration order; \<open>AList.update\<close> is assignment to a
  property (an existing key keeps its place, a new key goes last).
\<close>

datatype number = NaN | Num int

datatype jsval = Undefined | Null | Bool bool | Number number | Str string
  | Arr "jsval list" | Obj "(string \<times> jsval) list"

type_synonym jsobj = "(string \<times> jsval) list"

text \<open>A thrown \<open>Error\<close> object: its \<open>name\<close> and its \<open>message\<close>.\<close>

datatype exn = Exn (exn_name: string) (message: string)

definition new_Error :: "string \<Rightarrow> exn" where
  "new_Error msg = Exn ''Error'' msg"

text \<open>
  Built-ins of the language runtime that the gateway calls. They are parameters of the
  model: \<open>String.prototype.toLowerCase\<close>, \<open>parseInt\<close>, \<open>JSON.parse\<close> (\<open>None\<close> when it
  throws a \<open>SyntaxError\<close>), the message of the \<open>TypeError\<close> raised by reading a
  property of \<open>null\<close> or \<open>undefined\<close>, and the text that a template literal gives for
  a number (\<open>Number.prototype.toString\<close>, which turns to exponent form for large values).
\<close>

record runtime =
  toLowerCase :: "string \<Rightarrow> string"
  parseInt :: "string \<Rightarrow> number"
  JSON_parse :: "string \<Rightarrow> jsval option"
  null_read_message :: "string \<Rightarrow> string"
  number_toString :: "number \<Rightarrow> string"

definition TypeError_null :: "runtime \<Rightarrow> string \<Rightarrow> exn" where
  "TypeError_null rt p = Exn ''TypeError'' (null_read_message rt p)"

text \<open>Decimal printing of an index, as a template literal \<open>`${index}`\<close> prints it.\<close>

definition digit :: "nat \<Rightarrow> char" where
  "digit d = ''0123456789'' ! d"

fun dec :: "nat \<Rightarrow> string" where
  "dec n = (if n < 10 then [digit n] else dec (n div 10) @ [digit (n mod 10)])"

declare dec.simps [simp del]

text \<open>\<open>Array.prototype.join\<close> on strings.\<close>

fun join :: "string \<Rightarrow> string list \<Rightarrow> string" where
  "join sep [] = []"
| "join sep [x] = x"
| "join sep (x # y # ys) = x @ sep @ join sep (y # ys)"

text \<open>
  \<open>process.env\<close>: a finite map from variable names to strings. \<open>v || d\<close> on a variable
  takes the default when the variable is unset or the empty string.
\<close>

type_synonym env = "(string, string) fmap"

definition falsy :: "string option \<Rightarrow> bool" where
  "falsy v = (v = None \<or> v = Some [])"

definition or_str :: "string option \<Rightarrow> string \<Rightarrow> string" where
  "or_str v d = (case v of None \<Rightarrow> d | Some s \<Rightarrow> if s = [] then d else s)"

definition opt_str :: "string option \<Rightarrow> jsval" where
  "opt_str v = (case v of None \<Rightarrow> Undefined | Some s \<Rightarrow> Str s)"

section \<open>Descriptors and the config parser\<close>

text \<open>The object built by \<open>parseEnvConfigs\<close> for one index (the field \<open>id\<close> is \<open>id'\<close> here).\<close>

record config =
  id' :: string
  name :: string
  type :: string
  host :: "string option"
  port :: number
  user :: "string option"
  password :: "string option"
  database :: "string option"
  options :: jsval

definition env_key :: "nat \<Rightarrow> string \<Rightarrow> string" where
  "env_key index field = ''DB_'' @ dec index @ ''_'' @ field"

text \<open>The body of the parser's loop once \<open>type\<close> has been read and found non-empty.\<close>

definition config_of_group :: "runtime \<Rightarrow> env \<Rightarrow> nat \<Rightarrow> string \<Rightarrow> config" where
  "config_of_group rt env index ty =
     \<lparr> id' = or_str (fmlookup env (env_key index ''ID'')) (''db_'' @ dec index),
       name = or_str (fmlookup env (env_key index ''NAME'')) (''Database '' @ dec index),
       type = toLowerCase rt ty,
       host = fmlookup env (env_key index ''HOST''),
       port = parseInt rt (or_str (fmlookup env (env_key index ''PORT'')) ''0''),
       user = fmlookup env (env_key index ''USER''),
       password = fmlookup env (env_key index ''PASSWORD''),
       database = fmlookup env (env_key index ''DATABASE''),
       options =
         (case fmlookup env (env_key index ''OPTIONS'') of
            None \<Rightarrow> Obj []
          | Some optionsStr \<Rightarrow>
              if optionsStr = [] then Obj []
              else (case JSON_parse rt optionsStr of None \<Rightarrow> Obj [] | Some v \<Rightarrow> v)) \<rparr>"

text \<open>
  The loop \<open>while (true)\<close> of \<open>parseEnvConfigs\<close>. It ends because \<open>process.env\<close> is finite
  and every round that goes on has found one more variable \<open>DB_<index>_TYPE\<close>; the
  indices print to different names.
\<close>

lemma digit_inj: "a < 10 \<Longrightarrow> b < 10 \<Longrightarrow> digit a = digit b \<Longrightarrow> a = b"
proof -
  assume a: "a < 10" and b: "b < 10" and e: "digit a = digit b"
  have d: "distinct ''0123456789''" by simp
  have "length ''0123456789'' = 10" by simp
  with a b e d show "a = b" unfolding digit_def
    by (metis nth_eq_iff_index_eq)
qed

lemma dec_nonempty: "dec n \<noteq> []"
  by (subst dec.simps) simp

lemma dec_last: "last (dec n) = digit (n mod 10)"
  by (subst dec.simps) simp

lemma dec_butlast: "butlast (dec n) = (if n < 10 then [] else dec (n div 10))"
  by (subst dec.simps) simp

lemma dec_inj: "dec n = dec m \<Longrightarrow> n = m"
proof (induction n arbitrary: m rule: dec.induct)
  case (1 n)
  from "1.prems" have "digit (n mod 10) = digit (m mod 10)"
    using dec_last by metis
  then have lm: "n mod 10 = m mod 10" by (intro digit_inj) simp_all
  from "1.prems" have bl: "butlast (dec n) = butlast (dec m)" by simp
  show ?case
  proof (cases "n < 10")
    case True
    with bl have "m < 10"
      using dec_nonempty[of "m div 10"] by (auto simp: dec_butlast split: if_splits)
    with True lm show ?thesis by simp
  next
    case False
    with bl have e: "dec (n div 10) = dec (m div 10)"
      using dec_nonempty[of "n div 10"] by (auto simp: dec_butlast split: if_splits)
    from "1.IH"[OF False e] have "n div 10 = m div 10" .
    with lm show ?thesis by (metis div_mult_mod_eq)
  qed
qed

lemma env_key_inj: "inj (\<lambda>i. env_key i field)"
  by (rule injI) (simp add: env_key_def dec_inj)

lemma finite_type_indices: "finite {i. index \<le> i \<and> env_key i ''TYPE'' \<in> fmdom' env}"
proof -
  have "finite ((\<lambda>i. env_key i ''TYPE'') -` fmdom' env)"
    by (rule finite_vimageI[OF _ env_key_inj]) simp
  then show ?thesis by (rule rev_finite_subset) auto
qed

function parse_loop :: "runtime \<Rightarrow> env \<Rightarrow> nat \<Rightarrow> config list \<Rightarrow> config list" where
  "parse_loop rt env index configs =
     (case fmlookup env (env_key index ''TYPE'') of
        None \<Rightarrow> configs
      | Some ty \<Rightarrow>
          if ty = [] then configs
          else parse_loop rt env (index + 1) (configs @ [config_of_group rt env index ty]))"
  by pat_completeness auto
termination
proof (relation "measure (\<lambda>(rt, env, index, configs).
    card {i. index \<le> i \<and> env_key i ''TYPE'' \<in> fmdom' env})", goal_cases)
  case 1
  show ?case by simp
next
  case (2 rt env index configs ty)
  then have mem: "env_key index ''TYPE'' \<in> fmdom' env"
    by (auto intro: fmdom'I)
  have "{i. index + 1 \<le> i \<and> env_key i ''TYPE'' \<in> fmdom' env}
      \<subset> {i. index \<le> i \<and> env_key i ''TYPE'' \<in> fmdom' env}"
  proof
    show "{i. index + 1 \<le> i \<and> env_key i ''TYPE'' \<in> fmdom' env}
        \<subseteq> {i. index \<le> i \<and> env_key i ''TYPE'' \<in> fmdom' env}"
      by auto
    have "index \<in> {i. index \<le> i \<and> env_key i ''TYPE'' \<in> fmdom' env}"
      using mem by simp
    moreover have "index \<notin> {i. index + 1 \<le> i \<and> env_key i ''TYPE'' \<in> fmdom' env}"
      by simp
    ultimately show "{i. index + 1 \<le> i \<and> env_key i ''TYPE'' \<in> fmdom' env}
        \<noteq> {i. index \<le> i \<and> env_key i ''TYPE'' \<in> fmdom' env}"
      by blast
  qed
  then have "card {i. index + 1 \<le> i \<and> env_key i ''TYPE'' \<in> fmdom' env}
      < card {i. index \<le> i \<and> env_key i ''TYPE'' \<in> fmdom' env}"
    by (rule psubset_card_mono[OF finite_type_indices])
  then show ?case by simp
qed

declare parse_loop.simps [simp del]

definition parseEnvConfigs :: "runtime \<Rightarrow> env \<Rightarrow> config list" where
  "parseEnvConfigs rt env = parse_loop rt env 1 []"

section \<open>Connection factory\<close>

text \<open>
  The five \<open>switch\<close> statements on \<open>type\<close> of the manager have the same case labels;
  \<open>dialect_of\<close> is that dispatch, \<open>None\<close> being the \<open>default\<close> branch.
\<close>

datatype dialect = Postgres | MySQL | MSSQL

definition dialect_of :: "string \<Rightarrow> dialect option" where
  "dialect_of ty =
     (if ty = ''postgres'' \<or> ty = ''postgresql'' then Some Postgres
      else if ty = ''mysql'' \<or> ty = ''mariadb'' then Some MySQL
      else if ty = ''mssql'' \<or> ty = ''sqlserver'' then Some MSSQL
      else None)"

text \<open>
  A handle: a \<open>pg\<close> pool (with its \<open>ended\<close> flag), a \<open>mysql2\<close> pool, or the object
  \<open>{ config: ... }\<close> kept for SQL Server. Pools are identified by the configuration they
  were built from.
\<close>

datatype connection = PgPool jsobj bool | MysqlPool jsobj | MssqlConfig jsobj

fun ended :: "connection \<Rightarrow> bool" where
  "ended (PgPool c e) = e"
| "ended (MysqlPool c) = False"
| "ended (MssqlConfig c) = False"

fun config_of :: "connection \<Rightarrow> jsval" where
  "config_of (MssqlConfig c) = Obj c"
| "config_of (PgPool c e) = Undefined"
| "config_of (MysqlPool c) = Undefined"

record pg_result =
  pg_rows :: "jsobj list"
  pg_rowCount :: "nat option"

record mssql_result =
  recordset :: "jsobj list option"
  rowsAffected :: "nat list"

text \<open>
  The three driver libraries are parameters of the model. A constructor or call that
  throws (or rejects) gives the thrown error; the outcome of a statement is whatever the
  database server answers. \<open>pool_execute\<close> gives the row array of a statement that returns
  rows.
\<close>

record drivers =
  new_Pool :: "jsobj \<Rightarrow> exn option"
  createPool :: "jsobj \<Rightarrow> exn option"
  pool_query :: "connection \<Rightarrow> string \<Rightarrow> jsval list \<Rightarrow> exn + pg_result"
  pool_execute :: "connection \<Rightarrow> string \<Rightarrow> jsval list \<Rightarrow> exn + jsobj list"
  sql_connect :: "jsval \<Rightarrow> exn option"
  request_query :: "jsval \<Rightarrow> string \<Rightarrow> exn + mssql_result"
  pool_close :: "jsval \<Rightarrow> exn option"

text \<open>The calls made to the drivers, in order, are recorded as events.\<close>

datatype event =
    End connection
  | Query connection string "jsval list"
  | Execute connection string "jsval list"
  | Connect jsval
  | Request string
  | Close

text \<open>
  Reading a property that is neither an index nor built in (\<open>encrypt\<close>, \<open>name\<close>), and the
  own properties that an object spread \<open>{...src}\<close> copies, in order (that the engine
  lists index-like keys before the others is not modelled; no property below depends on
  the order).
\<close>

definition get_prop :: "jsval \<Rightarrow> string \<Rightarrow> jsval" where
  "get_prop v k =
     (case v of
        Obj kvs \<Rightarrow> (case map_of kvs k of None \<Rightarrow> Undefined | Some x \<Rightarrow> x)
      | _ \<Rightarrow> Undefined)"

definition own_props :: "jsval \<Rightarrow> jsobj" where
  "own_props v =
     (case v of
        Obj kvs \<Rightarrow> kvs
      | Arr xs \<Rightarrow> zip (map dec [0..<length xs]) xs
      | Str s \<Rightarrow> zip (map dec [0..<length s]) (map (\<lambda>c. Str [c]) s)
      | _ \<Rightarrow> [])"

definition spread :: "jsval \<Rightarrow> jsobj \<Rightarrow> jsobj" where
  "spread src obj = fold (\<lambda>(k, v). AList.update k v) (own_props src) obj"

definition createConnection :: "runtime \<Rightarrow> drivers \<Rightarrow> config \<Rightarrow> exn + connection" where
  "createConnection rt drv config =
     (case dialect_of (type config) of
        Some Postgres \<Rightarrow>
          (let poolConfig = spread (options config)
                 [(''host'', opt_str (host config)),
                  (''port'', Number (port config)),
                  (''user'', opt_str (user config)),
                  (''password'', opt_str (password config)),
                  (''database'', opt_str (database config))]
           in case new_Pool drv poolConfig of
                Some e \<Rightarrow> Inl e
              | None \<Rightarrow> Inr (PgPool poolConfig False))
      | Some MySQL \<Rightarrow>
          (let poolConfig = spread (options config)
                 [(''host'', opt_str (host config)),
                  (''port'', Number (port config)),
                  (''user'', opt_str (user config)),
                  (''password'', opt_str (password config)),
                  (''database'', opt_str (database config)),
                  (''waitForConnections'', Bool True),
                  (''connectionLimit'', Number (Num 10))]
           in case createPool drv poolConfig of
                Some e \<Rightarrow> Inl e
              | None \<Rightarrow> Inr (MysqlPool poolConfig))
      | Some MSSQL \<Rightarrow>
          (if options config = Null \<or> options config = Undefined
           then Inl (TypeError_null rt ''encrypt'')
           else Inr (MssqlConfig
                 [(''server'', opt_str (host config)),
                  (''port'', Number (port config)),
                  (''user'', opt_str (user config)),
                  (''password'', opt_str (password config)),
                  (''database'', opt_str (database config)),
                  (''options'', Obj (spread (options config)
                     [(''encrypt'', Bool (get_prop (options config) ''encrypt'' \<noteq> Bool False)),
                      (''trustServerCertificate'', Bool True)]))]))
      | None \<Rightarrow> Inl (new_Error (''Unsupported database type: '' @ type config)))"

section \<open>Connection registry\<close>

datatype status = StatusConnected | StatusError

record db = config +
  connection :: "connection option"
  status :: status
  error :: "string option"

text \<open>
  The registry is a \<open>Map\<close>: keys in insertion order, \<open>set\<close> on a key that is there
  replaces its value in place.
\<close>

type_synonym registry = "(string \<times> db) list"

record manager =
  connections :: registry
  process_env :: env

text \<open>\<open>dotenv.config\<close> with \<open>override: true\<close>: the variables of the file replace those set.\<close>

definition reloadEnv :: "env \<Rightarrow> env \<Rightarrow> env" where
  "reloadEnv file env = env ++\<^sub>f file"

text \<open>The callback of \<open>dbConfigs.forEach\<close> in \<open>initializeConnections\<close>.\<close>

definition connect_config :: "runtime \<Rightarrow> drivers \<Rightarrow> config \<Rightarrow> registry \<Rightarrow> registry" where
  "connect_config rt drv config conns =
     (case createConnection rt drv config of
        Inr c \<Rightarrow>
          AList.update (id' config)
            (config.extend config (db.fields (Some c) StatusConnected None)) conns
      | Inl e \<Rightarrow>
          AList.update (id' config)
            (config.extend config (db.fields None StatusError (Some (message e)))) conns)"

definition initializeConnections :: "runtime \<Rightarrow> drivers \<Rightarrow> env \<Rightarrow> manager \<Rightarrow> manager" where
  "initializeConnections rt drv file st =
     (let env' = reloadEnv file (process_env st);
          dbConfigs = parseEnvConfigs rt env'
      in \<lparr> connections = fold (connect_config rt drv) dbConfigs (connections st),
           process_env = env' \<rparr>)"

text \<open>Errors of \<open>end()\<close> are caught and logged, so closing only leaves events.\<close>

definition closeConnection :: "db \<Rightarrow> event list" where
  "closeConnection d =
     (case connection d of
        None \<Rightarrow> []
      | Some c \<Rightarrow>
          (case dialect_of (type d) of
             Some Postgres \<Rightarrow> [End c]
           | Some MySQL \<Rightarrow> [End c]
           | Some MSSQL \<Rightarrow> []
           | None \<Rightarrow> []))"

text \<open>
  \<open>reloadConnections\<close>: close every entry, clear the registry, reload the environment and
  initialise again.
\<close>

definition reloadConnections ::
    "runtime \<Rightarrow> drivers \<Rightarrow> env \<Rightarrow> manager \<Rightarrow> manager \<times> event list" where
  "reloadConnections rt drv file st =
     (initializeConnections rt drv file
        \<lparr> connections = [], process_env = reloadEnv file (process_env st) \<rparr>,
      concat (map (\<lambda>(k, d). closeConnection d) (connections st)))"

definition getConnection :: "registry \<Rightarrow> string \<Rightarrow> exn + db" where
  "getConnection conns dbId =
     (case map_of conns dbId of
        None \<Rightarrow> Inl (new_Error (''Database '' @ dbId @ '' not found''))
      | Some d \<Rightarrow>
          if status d \<noteq> StatusConnected
          then Inl (new_Error (''Database '' @ dbId @ '' is not connected: ''
                     @ or_str (error d) ''Unknown error''))
          else Inr d)"

definition status_text :: "status \<Rightarrow> string" where
  "status_text s = (case s of StatusConnected \<Rightarrow> ''connected'' | StatusError \<Rightarrow> ''error'')"

definition getAllConnections :: "manager \<Rightarrow> jsval list" where
  "getAllConnections st =
     map (\<lambda>d. Obj [(''id'', Str (id' d)),
                   (''name'', Str (name d)),
                   (''type'', Str (type d)),
                   (''status'', Str (status_text (status d))),
                   (''error'', if falsy (error d) then Null else opt_str (error d))])
       (map snd (connections st))"

section \<open>Query executor\<close>

record query_result =
  rows :: "jsobj list option"
  rowCount :: nat

text \<open>\<open>Error.prototype.toString\<close> and the message kept by the \<open>catch\<close> of \<open>query\<close>.\<close>

definition toString :: "exn \<Rightarrow> string" where
  "toString e =
     (if exn_name e = [] then message e
      else if message e = [] then exn_name e
      else exn_name e @ '': '' @ message e)"

definition errorMsg :: "exn \<Rightarrow> string" where
  "errorMsg e =
     (if message e \<noteq> [] then message e
      else if toString e \<noteq> [] then toString e
      else ''Unknown error'')"

definition query_failed :: "exn \<Rightarrow> exn" where
  "query_failed e = new_Error (''Query failed: '' @ errorMsg e)"

text \<open>
  \<open>query\<close> gives its outcome and the driver calls it made. The lookup is outside the
  \<open>try\<close>; every error raised inside it is rethrown as \<open>Query failed: ...\<close>.
\<close>

definition query ::
    "runtime \<Rightarrow> drivers \<Rightarrow> registry \<Rightarrow> string \<Rightarrow> string \<Rightarrow> jsval list
      \<Rightarrow> (exn + query_result) \<times> event list" where
  "query rt drv conns dbId sqlQuery params =
     (case getConnection conns dbId of
        Inl e \<Rightarrow> (Inl e, [])
      | Inr d \<Rightarrow>
          (case dialect_of (type d) of
             Some Postgres \<Rightarrow>
               (case connection d of
                  None \<Rightarrow> (Inl (query_failed (new_Error ''Database connection closed'')), [])
                | Some c \<Rightarrow>
                    if ended c
                    then (Inl (query_failed (new_Error ''Database connection closed'')), [])
                    else (case pool_query drv c sqlQuery params of
                            Inl e \<Rightarrow> (Inl (query_failed e), [Query c sqlQuery params])
                          | Inr pgResult \<Rightarrow>
                              (Inr \<lparr> rows = Some (pg_rows pgResult),
                                     rowCount =
                                       (case pg_rowCount pgResult of
                                          None \<Rightarrow> length (pg_rows pgResult)
                                        | Some n \<Rightarrow>
                                            if n = 0 then length (pg_rows pgResult) else n) \<rparr>,
                               [Query c sqlQuery params])))
           | Some MySQL \<Rightarrow>
               (case connection d of
                  None \<Rightarrow> (Inl (query_failed (TypeError_null rt ''execute'')), [])
                | Some c \<Rightarrow>
                    (case pool_execute drv c sqlQuery params of
                       Inl e \<Rightarrow> (Inl (query_failed e), [Execute c sqlQuery params])
                     | Inr rs \<Rightarrow>
                         (Inr \<lparr> rows = Some rs, rowCount = length rs \<rparr>,
                          [Execute c sqlQuery params])))
           | Some MSSQL \<Rightarrow>
               (case connection d of
                  None \<Rightarrow> (Inl (query_failed (TypeError_null rt ''config'')), [])
                | Some c \<Rightarrow>
                    (case sql_connect drv (config_of c) of
                       Some e \<Rightarrow> (Inl (query_failed e), [Connect (config_of c)])
                     | None \<Rightarrow>
                         (case request_query drv (config_of c) sqlQuery of
                            Inl e \<Rightarrow>
                              (Inl (query_failed e), [Connect (config_of c), Request sqlQuery])
                          | Inr result \<Rightarrow>
                              (case pool_close drv (config_of c) of
                                 Some e \<Rightarrow>
                                   (Inl (query_failed e),
                                    [Connect (config_of c), Request sqlQuery, Close])
                               | None \<Rightarrow>
                                   (Inr \<lparr> rows = recordset result,
                                          rowCount =
                                            (case rowsAffected result of
                                               [] \<Rightarrow> 0
                                             | n # ns \<Rightarrow> n) \<rparr>,
                                    [Connect (config_of c), Request sqlQuery, Close])))))
           | None \<Rightarrow>
               (Inl (query_failed (new_Error (''Unsupported database type: '' @ type d))), [])))"

section \<open>Schema introspection\<close>

text \<open>A template literal that spans lines: every line is preceded by a line feed.\<close>

definition template :: "string list \<Rightarrow> string" where
  "template ls = concat (map (\<lambda>l. CHR 0x0A # l) ls)"

definition quoted :: "string \<Rightarrow> string" where
  "quoted s = [CHR 0x27] @ s @ [CHR 0x27]"

definition getTableSchema_query :: "dialect \<Rightarrow> string" where
  "getTableSchema_query dl =
     template
       ([''          SELECT '',
         ''            column_name as name,'',
         ''            data_type as type,'',
         ''            is_nullable as nullable,'',
         ''            column_default as default_value'',
         ''          FROM information_schema.columns'']
        @ (case dl of
             Postgres \<Rightarrow>
               [''          WHERE table_schema = COALESCE($1, '' @ quoted ''public'' @ '')'',
                ''            AND table_name = $2'']
           | MySQL \<Rightarrow>
               [''          WHERE table_schema = ? AND table_name = ?'']
           | MSSQL \<Rightarrow>
               [''          WHERE table_schema = COALESCE(?, '' @ quoted ''dbo'' @ '')'',
                ''            AND table_name = ?''])
        @ [''          ORDER BY ordinal_position'',
           ''        ''])"

definition getTableSchema ::
    "runtime \<Rightarrow> drivers \<Rightarrow> registry \<Rightarrow> string \<Rightarrow> string \<Rightarrow> string option
      \<Rightarrow> (exn + query_result) \<times> event list" where
  "getTableSchema rt drv conns dbId tableName schema =
     (case getConnection conns dbId of
        Inl e \<Rightarrow> (Inl e, [])
      | Inr d \<Rightarrow>
          (case dialect_of (type d) of
             Some Postgres \<Rightarrow>
               query rt drv conns dbId (getTableSchema_query Postgres)
                 [Str (or_str schema ''public''), Str tableName]
           | Some MySQL \<Rightarrow>
               query rt drv conns dbId (getTableSchema_query MySQL)
                 [opt_str (database d), Str tableName]
           | Some MSSQL \<Rightarrow>
               query rt drv conns dbId (getTableSchema_query MSSQL)
                 [Str (or_str schema ''dbo''), Str tableName]
           | None \<Rightarrow> (Inl (new_Error (''Unsupported database type: '' @ type d)), [])))"

section \<open>Routes\<close>

text \<open>
  A response is its status code and its JSON body. The body of a row request is taken at
  the types the interface documents: \<open>primaryKey\<close> a column name when present,
  \<open>primaryValue\<close> a value (\<open>Undefined\<close> when the field is missing), \<open>data\<close> an object.
\<close>

datatype response = Response nat jsval

record row_body =
  primaryKey :: "string option"
  primaryValue :: jsval
  data :: jsobj

definition error_response :: "exn \<Rightarrow> response" where
  "error_response e = Response 500 (Obj [(''error'', Str (message e))])"

definition is_postgres :: "string \<Rightarrow> bool" where
  "is_postgres ty = (ty = ''postgres'' \<or> ty = ''postgresql'')"

text \<open>
  \<open>setClause\<close>: the keys of \<open>data\<close> that name a column of the schema, each with the
  placeholder of its position among the kept keys.
\<close>

definition setClause :: "string \<Rightarrow> jsobj list \<Rightarrow> jsobj \<Rightarrow> string" where
  "setClause ty columns dat =
     join '', ''
       (map (\<lambda>(idx, key). key @ '' = '' @ (if is_postgres ty then ''$'' @ dec (idx + 1) else ''?''))
          (enumerate 0
             (filter (\<lambda>key. find (\<lambda>col. get_prop (Obj col) ''name'' = Str key) columns \<noteq> None)
                (map fst dat))))"

definition whereClause :: "string \<Rightarrow> string \<Rightarrow> jsval list \<Rightarrow> string" where
  "whereClause ty pk vals =
     (if is_postgres ty then pk @ '' = $'' @ dec (length vals + 1) else pk @ '' = ?'')"

definition put_row ::
    "runtime \<Rightarrow> drivers \<Rightarrow> registry \<Rightarrow> string \<Rightarrow> string \<Rightarrow> row_body
      \<Rightarrow> response \<times> event list" where
  "put_row rt drv conns dbId tableName body =
     (case primaryKey body of
        None \<Rightarrow> (Response 400 (Obj [(''error'', Str ''Primary key and value required'')]), [])
      | Some pk \<Rightarrow>
          if pk = [] \<or> primaryValue body = Undefined
          then (Response 400 (Obj [(''error'', Str ''Primary key and value required'')]), [])
          else
            (case getConnection conns dbId of
               Inl e \<Rightarrow> (error_response e, [])
             | Inr d \<Rightarrow>
                 (case getTableSchema rt drv conns dbId tableName None of
                    (Inl e, evs) \<Rightarrow> (error_response e, evs)
                  | (Inr schema, evs) \<Rightarrow>
                      (let columns = (case rows schema of None \<Rightarrow> [] | Some rs \<Rightarrow> rs);
                           vals = map snd (data body);
                           stmt = ''UPDATE '' @ tableName
                             @ '' SET '' @ setClause (type d) columns (data body)
                             @ '' WHERE '' @ whereClause (type d) pk vals;
                           params = vals @ [primaryValue body]
                       in case query rt drv conns dbId stmt params of
                            (Inl e, evs') \<Rightarrow> (error_response e, evs @ evs')
                          | (Inr r, evs') \<Rightarrow>
                              (Response 200 (Obj [(''success'', Bool True)]), evs @ evs')))))"

text \<open>\<open>GET /:dbId/tables/:tableName/data\<close>, with the query string's \<open>schema\<close>, \<open>limit\<close>, \<open>offset\<close>.\<close>

definition get_data ::
    "runtime \<Rightarrow> drivers \<Rightarrow> registry \<Rightarrow> string \<Rightarrow> string
      \<Rightarrow> string option \<Rightarrow> string option \<Rightarrow> string option \<Rightarrow> response \<times> event list" where
  "get_data rt drv conns dbId tableName q_schema q_limit q_offset =
     (let limit = parseInt rt (or_str q_limit ''1000'');
          offset = parseInt rt (or_str q_offset ''0'')
      in case getConnection conns dbId of
           Inl e \<Rightarrow> (error_response e, [])
         | Inr d \<Rightarrow>
             (let ty = type d;
                  tableRef =
                    (if \<not> falsy q_schema \<and> (is_postgres ty \<or> ty = ''mssql'' \<or> ty = ''sqlserver'')
                     then or_str q_schema [] @ ''.'' @ tableName
                     else tableName);
                  finalQuery =
                    (if ty = ''mssql'' \<or> ty = ''sqlserver''
                     then ''SELECT TOP '' @ number_toString rt limit @ '' * FROM '' @ tableRef
                            @ '' OFFSET '' @ number_toString rt offset @ '' ROWS''
                     else if ty = ''mysql'' \<or> ty = ''mariadb''
                     then ''SELECT * FROM '' @ tableRef @ '' LIMIT ? OFFSET ?''
                     else if is_postgres ty
                     then ''SELECT * FROM '' @ tableRef @ '' LIMIT $1 OFFSET $2''
                     else ''SELECT * FROM '' @ tableRef @ '' LIMIT ? OFFSET ?'')
              in case query rt drv conns dbId finalQuery [Number limit, Number offset] of
                   (Inl e, evs) \<Rightarrow> (error_response e, evs)
                 | (Inr result, evs) \<Rightarrow>
                     (Response 200
                        (Obj [(''rows'',
                               Arr (map Obj (case rows result of None \<Rightarrow> [] | Some rs \<Rightarrow> rs))),
                              (''count'',
                               Number (Num (int
                                 (if rowCount result \<noteq> 0 then rowCount result
                                  else (case rows result of None \<Rightarrow> 0 | Some rs \<Rightarrow> length rs)))))]),
                      evs)))"

section \<open>Notions used to state the properties\<close>

text \<open>The value of \<open>DB_<i>_TYPE\<close> (empty when unset).\<close>

definition type_at :: "env \<Rightarrow> nat \<Rightarrow> string" where
  "type_at env i = or_str (fmlookup env (env_key i ''TYPE'')) []"

text \<open>The entry that \<open>initializeConnections\<close> stores for one descriptor.\<close>

definition entry_for :: "runtime \<Rightarrow> drivers \<Rightarrow> config \<Rightarrow> db" where
  "entry_for rt drv config =
     (case createConnection rt drv config of
        Inr c \<Rightarrow> config.extend config (db.fields (Some c) StatusConnected None)
      | Inl e \<Rightarrow> config.extend config (db.fields None StatusError (Some (message e))))"


subsection \<open>A concrete installation\<close>

text \<open>
  A runtime (ASCII lower-casing, \<open>parseInt\<close> on digit strings, \<open>JSON.parse\<close> on three
  texts, numbers printed in decimal, as the engine prints integers below \<open>1e21\<close>),
  drivers that accept every configuration and a \<open>.env\<close> file with four groups: the inputs
  at which the properties below are evaluated.
\<close>

definition ascii_lower :: "char \<Rightarrow> char" where
  "ascii_lower c =
     (case map_of (zip ''ABCDEFGHIJKLMNOPQRSTUVWXYZ'' ''abcdefghijklmnopqrstuvwxyz'') c of
        None \<Rightarrow> c
      | Some l \<Rightarrow> l)"

definition parse_decimal :: "string \<Rightarrow> number" where
  "parse_decimal s =
     (if s \<noteq> [] \<and> list_all (\<lambda>c. (48::nat) \<le> of_char c \<and> of_char c \<le> (57::nat)) s
      then Num (foldl (\<lambda>a c. 10 * a + (of_char c - 48)) 0 s)
      else NaN)"

definition decimal_text :: "number \<Rightarrow> string" where
  "decimal_text x =
     (case x of
        NaN \<Rightarrow> ''NaN''
      | Num i \<Rightarrow> if i < 0 then ''-'' @ dec (nat (- i)) else dec (nat i))"

definition example_runtime :: runtime where
  "example_runtime =
     \<lparr> toLowerCase = map ascii_lower,
       parseInt = parse_decimal,
       JSON_parse = map_of [(''{}'', Obj []), (''null'', Null), (''[]'', Arr [])],
       null_read_message =
         (\<lambda>p. ''Cannot read properties of null (reading '' @ quoted p @ '')''),
       number_toString = decimal_text \<rparr>"

definition example_drivers :: drivers where
  "example_drivers =
     \<lparr> new_Pool = (\<lambda>cfg. None),
       createPool = (\<lambda>cfg. None),
       pool_query = (\<lambda>c stmt params.
         if stmt = getTableSchema_query Postgres
         then Inr \<lparr> pg_rows = [[(''name'', Str ''id''), (''type'', Str ''integer'')],
                                [(''name'', Str ''val''), (''type'', Str ''text'')]],
                    pg_rowCount = Some 2 \<rparr>
         else Inr \<lparr> pg_rows = [], pg_rowCount = Some 1 \<rparr>),
       pool_execute = (\<lambda>c stmt params. Inr []),
       sql_connect = (\<lambda>cfg. None),
       request_query = (\<lambda>cfg stmt.
         if stmt = ''SELECT 1''
         then Inr \<lparr> recordset = Some [[(''x'', Number (Num 1))]], rowsAffected = [1] \<rparr>
         else Inl (Exn ''RequestError'' ''Incorrect syntax'')),
       pool_close = (\<lambda>cfg. None) \<rparr>"

definition example_file :: env where
  "example_file = fmap_of_list
     [(''DB_1_TYPE'', ''postgres''), (''DB_1_ID'', ''db1''), (''DB_1_HOST'', ''localhost''),
      (''DB_1_PORT'', ''5432''), (''DB_1_DATABASE'', ''app''),
      (''DB_2_TYPE'', ''MySQL''), (''DB_2_DATABASE'', ''shop''),
      (''DB_3_TYPE'', ''mssql''), (''DB_3_ID'', ''erp''), (''DB_3_HOST'', ''sql.local''),
      (''DB_4_TYPE'', ''oracle'')]"

definition initial_manager :: manager where
  "initial_manager = \<lparr> connections = [], process_env = fmempty \<rparr>"

definition example_manager :: manager where
  "example_manager =
     initializeConnections example_runtime example_drivers example_file initial_manager"

definition env_blank_type :: env where
  "env_blank_type = fmap_of_list [(''DB_1_TYPE'', []), (''DB_2_TYPE'', ''mysql'')]"

definition env_with_gap :: env where
  "env_with_gap = fmap_of_list
     [(''DB_1_TYPE'', ''Postgres''), (''DB_1_OPTIONS'', ''{bad''), (''DB_1_PORT'', ''5432''),
      (''DB_2_TYPE'', ''mysql''), (''DB_2_ID'', ''shop''),
      (''DB_4_TYPE'', ''mssql'')]"

definition mssql_descriptor :: "jsval \<Rightarrow> config" where
  "mssql_descriptor opts =
     \<lparr> id' = ''erp'', name = ''Database 3'', type = ''mssql'', host = Some ''sql.local'',
       port = Num 1433, user = Some ''sa'', password = Some ''secret'', database = Some ''erp'',
       options = opts \<rparr>"

section \<open>Auxiliary facts\<close>

subsection \<open>The parser's loop\<close>

lemma parse_loop_stop:
  "falsy (fmlookup env (env_key index ''TYPE'')) \<Longrightarrow> parse_loop rt env index configs = configs"
  by (subst parse_loop.simps) (auto simp: falsy_def split: option.splits)

lemma parse_loop_step:
  "\<not> falsy (fmlookup env (env_key index ''TYPE'')) \<Longrightarrow>
   parse_loop rt env index configs =
   parse_loop rt env (Suc index) (configs @ [config_of_group rt env index (type_at env index)])"
  by (subst parse_loop.simps) (auto simp: falsy_def type_at_def or_str_def split: option.splits)

lemma parse_loop_run:
  "(\<forall>i. index \<le> i \<and> i < index + n \<longrightarrow> \<not> falsy (fmlookup env (env_key i ''TYPE''))) \<Longrightarrow>
   falsy (fmlookup env (env_key (index + n) ''TYPE'')) \<Longrightarrow>
   parse_loop rt env index configs =
     configs @ map (\<lambda>i. config_of_group rt env i (type_at env i)) [index..<index + n]"
proof (induction n arbitrary: index configs)
  case 0
  then show ?case by (simp add: parse_loop_stop)
next
  case (Suc n)
  have here: "\<not> falsy (fmlookup env (env_key index ''TYPE''))"
    using Suc.prems(1) by simp
  have rest: "\<forall>i. Suc index \<le> i \<and> i < Suc index + n \<longrightarrow> \<not> falsy (fmlookup env (env_key i ''TYPE''))"
    using Suc.prems(1) by simp
  have stop: "falsy (fmlookup env (env_key (Suc index + n) ''TYPE''))"
    using Suc.prems(2) by simp
  have "parse_loop rt env index configs =
      parse_loop rt env (Suc index) (configs @ [config_of_group rt env index (type_at env index)])"
    by (rule parse_loop_step[OF here])
  also have "\<dots> = (configs @ [config_of_group rt env index (type_at env index)])
      @ map (\<lambda>i. config_of_group rt env i (type_at env i)) [Suc index..<Suc index + n]"
    by (rule Suc.IH[OF rest stop])
  also have "\<dots> = configs @ map (\<lambda>i. config_of_group rt env i (type_at env i)) [index..<index + Suc n]"
  proof -
    have "[index..<index + Suc n] = index # [Suc index..<Suc index + n]"
      by (simp add: upt_conv_Cons del: upt_Suc)
    then show ?thesis by simp
  qed
  finally show ?case .
qed

lemma config_of_group_bad_options:
  "fmlookup env (env_key i ''OPTIONS'') = Some s \<Longrightarrow> JSON_parse rt s = None \<Longrightarrow>
   options (config_of_group rt env i ty) = Obj []"
  by (simp add: config_of_group_def)

subsection \<open>The registry\<close>

lemma connect_config_update:
  "connect_config rt drv c conns = AList.update (id' c) (entry_for rt drv c) conns"
  by (simp add: connect_config_def entry_for_def split: sum.splits)

lemma update_fresh: "k \<notin> fst ` set al \<Longrightarrow> AList.update k v al = al @ [(k, v)]"
  by (induction al) auto

lemma fold_connect_config_fresh:
  "distinct (map id' cfgs) \<Longrightarrow> set (map id' cfgs) \<inter> fst ` set conns = {} \<Longrightarrow>
   fold (connect_config rt drv) cfgs conns = conns @ map (\<lambda>c. (id' c, entry_for rt drv c)) cfgs"
proof (induction cfgs arbitrary: conns)
  case Nil
  then show ?case by simp
next
  case (Cons c cfgs)
  have fresh: "id' c \<notin> fst ` set conns" using Cons.prems(2) by auto
  have step: "connect_config rt drv c conns = conns @ [(id' c, entry_for rt drv c)]"
    by (simp add: connect_config_update update_fresh[OF fresh])
  have d: "distinct (map id' cfgs)" using Cons.prems(1) by simp
  have disj: "set (map id' cfgs) \<inter> fst ` set (conns @ [(id' c, entry_for rt drv c)]) = {}"
    using Cons.prems by auto
  show ?case
    using Cons.IH[OF d disj] by (simp add: step)
qed

lemma entry_for_fields:
  "config.truncate (entry_for rt drv c) = c"
  "createConnection rt drv c = Inl e \<Longrightarrow>
     status (entry_for rt drv c) = StatusError \<and> connection (entry_for rt drv c) = None
     \<and> error (entry_for rt drv c) = Some (message e)"
  "createConnection rt drv c = Inr h \<Longrightarrow>
     status (entry_for rt drv c) = StatusConnected \<and> connection (entry_for rt drv c) = Some h
     \<and> error (entry_for rt drv c) = None"
  by (auto simp: entry_for_def config.truncate_def config.extend_def db.fields_def split: sum.splits)







lemma reloadEnv_twice: "reloadEnv file (reloadEnv file env) = reloadEnv file env"
  unfolding reloadEnv_def by (rule fmap_ext) simp

lemma reloadConnections_state:
  "fst (reloadConnections rt drv file st) =
     \<lparr> connections = fold (connect_config rt drv)
         (parseEnvConfigs rt (reloadEnv file (process_env st))) [],
       process_env = reloadEnv file (process_env st) \<rparr>"
  by (simp add: reloadConnections_def initializeConnections_def Let_def reloadEnv_twice)

lemma reloadConnections_idem:
  "fst (reloadConnections rt drv file (fst (reloadConnections rt drv file st)))
     = fst (reloadConnections rt drv file st)"
  by (simp add: reloadConnections_state reloadEnv_twice)

subsection \<open>Object spread, the factory and the executor\<close>

lemma map_of_fold_update:
  "map_of (fold (\<lambda>(k, v). AList.update k v) kvs obj) k =
     (case map_of (rev kvs) k of None \<Rightarrow> map_of obj k | Some v \<Rightarrow> Some v)"
proof (induction kvs arbitrary: obj)
  case Nil
  then show ?case by simp
next
  case (Cons kv kvs)
  obtain a b where kv: "kv = (a, b)" by (cases kv)
  show ?case
    by (simp add: kv Cons.IH update_conv' map_of_append map_add_def split: option.splits)
qed

lemma map_of_rev_distinct: "distinct (map fst xs) \<Longrightarrow> map_of (rev xs) = map_of xs"
  by (subst map_of_inject_set) (simp_all add: rev_map[symmetric])

lemma map_of_spread_Obj:
  "distinct (map fst kvs) \<Longrightarrow>
   map_of (spread (Obj kvs) obj) k = (case map_of kvs k of None \<Rightarrow> map_of obj k | Some v \<Rightarrow> Some v)"
  by (simp add: spread_def own_props_def map_of_fold_update map_of_rev_distinct)

lemma createConnection_null_options:
  "dialect_of (type config) = Some MSSQL \<Longrightarrow> options config = Null \<Longrightarrow>
   createConnection rt drv config = Inl (TypeError_null rt ''encrypt'')"
  by (simp add: createConnection_def)

lemma query_mssql_request_fails:
  assumes "getConnection conns dbId = Inr d" and "dialect_of (type d) = Some MSSQL"
      and "connection d = Some c" and "sql_connect drv (config_of c) = None"
      and "request_query drv (config_of c) stmt = Inl e"
  shows "query rt drv conns dbId stmt params
           = (Inl (query_failed e), [Connect (config_of c), Request stmt])"
  using assms by (simp add: query_def)

lemma query_mssql_request_succeeds:
  assumes "getConnection conns dbId = Inr d" and "dialect_of (type d) = Some MSSQL"
      and "connection d = Some c" and "sql_connect drv (config_of c) = None"
      and "request_query drv (config_of c) stmt = Inr r"
  shows "snd (query rt drv conns dbId stmt params)
           = [Connect (config_of c), Request stmt, Close]"
  using assms by (simp add: query_def split: option.splits)

lemma query_mssql_ignores_params:
  assumes "getConnection conns dbId = Inr d" and "dialect_of (type d) = Some MSSQL"
  shows "query rt drv conns dbId stmt params = query rt drv conns dbId stmt params'"
  using assms by (simp add: query_def)

lemma query_mssql_connects_first:
  assumes "getConnection conns dbId = Inr d" and "dialect_of (type d) = Some MSSQL"
      and "connection d = Some (MssqlConfig cfg)"
  shows "hd (snd (query rt drv conns dbId stmt params)) = Connect (Obj cfg)"
  using assms by (simp add: query_def split: option.splits sum.splits)

subsection \<open>The column query\<close>

text \<open>
  What \<open>getTableSchema\<close> makes the drivers do. On postgres and mysql the schema (or database)
  name and the table name are bound as parameters. On mssql the executor sends the text
  alone, so neither argument of \<open>getTableSchema\<close> reaches the server.
\<close>

lemma getTableSchema_postgres_events:
  assumes "getConnection conns dbId = Inr d" and "dialect_of (type d) = Some Postgres"
      and "connection d = Some c" and "\<not> ended c"
  shows "snd (getTableSchema rt drv conns dbId tableName None)
     = [Query c (getTableSchema_query Postgres) [Str ''public'', Str tableName]]"
  using assms by (simp add: getTableSchema_def query_def or_str_def split: sum.splits)

lemma getTableSchema_mysql_events:
  assumes "getConnection conns dbId = Inr d" and "dialect_of (type d) = Some MySQL"
      and "connection d = Some c"
  shows "snd (getTableSchema rt drv conns dbId tableName schema)
     = [Execute c (getTableSchema_query MySQL) [opt_str (database d), Str tableName]]"
  using assms by (simp add: getTableSchema_def query_def split: sum.splits)

lemma getTableSchema_mssql_ignores_arguments:
  assumes "getConnection conns dbId = Inr d" and "dialect_of (type d) = Some MSSQL"
  shows "getTableSchema rt drv conns dbId tableName schema
     = getTableSchema rt drv conns dbId tableName' schema'"
  using assms by (simp add: getTableSchema_def query_def)

lemma getTableSchema_mssql_events:
  assumes "getConnection conns dbId = Inr d" and "dialect_of (type d) = Some MSSQL"
      and "connection d = Some c"
  shows "set (snd (getTableSchema rt drv conns dbId tableName schema))
     \<subseteq> {Connect (config_of c), Request (getTableSchema_query MSSQL), Close}"
  using assms by (auto simp: getTableSchema_def query_def split: option.splits sum.splits)

subsection \<open>The update route\<close>

text \<open>
  What \<open>PUT .../row\<close> hands to the executor: the \<open>SET\<close> clause is built from the keys
  kept by the filter, the parameters are all the values of \<open>data\<close> followed by the
  primary-key value.
\<close>

lemma put_row_issues:
  assumes "primaryKey body = Some pk" and "pk \<noteq> []" and "primaryValue body \<noteq> Undefined"
      and "getConnection conns dbId = Inr d"
      and "getTableSchema rt drv conns dbId tableName None = (Inr schema, evs)"
      and "rows schema = Some columns"
  shows "snd (put_row rt drv conns dbId tableName body)
     = evs @ snd (query rt drv conns dbId
         (''UPDATE '' @ tableName @ '' SET '' @ setClause (type d) columns (data body)
            @ '' WHERE '' @ whereClause (type d) pk (map snd (data body)))
         (map snd (data body) @ [primaryValue body]))"
  using assms by (simp add: put_row_def Let_def split: prod.splits sum.splits)

subsection \<open>The paginated read\<close>

text \<open>
  The statement that \<open>GET .../data\<close> hands to the executor, per dialect, and the rows it
  answers with: exactly those the driver returned. How many rows a server returns for
  \<open>LIMIT\<close>, \<open>OFFSET\<close> or \<open>TOP\<close> is decided by the server, not by the gateway.
\<close>

lemma get_data_postgres:
  assumes "getConnection conns dbId = Inr d" and "is_postgres (type d)" and "falsy q_schema"
  shows "snd (get_data rt drv conns dbId tableName q_schema q_limit q_offset)
     = snd (query rt drv conns dbId (''SELECT * FROM '' @ tableName @ '' LIMIT $1 OFFSET $2'')
         [Number (parseInt rt (or_str q_limit ''1000'')), Number (parseInt rt (or_str q_offset ''0''))])"
  using assms by (auto simp: get_data_def Let_def is_postgres_def split: prod.splits sum.splits)

lemma get_data_mysql:
  assumes "getConnection conns dbId = Inr d" and "type d = ''mysql'' \<or> type d = ''mariadb''"
  shows "snd (get_data rt drv conns dbId tableName q_schema q_limit q_offset)
     = snd (query rt drv conns dbId (''SELECT * FROM '' @ tableName @ '' LIMIT ? OFFSET ?'')
         [Number (parseInt rt (or_str q_limit ''1000'')), Number (parseInt rt (or_str q_offset ''0''))])"
  using assms by (auto simp: get_data_def Let_def is_postgres_def split: prod.splits sum.splits)

lemma get_data_mssql:
  assumes "getConnection conns dbId = Inr d" and "type d = ''mssql'' \<or> type d = ''sqlserver''"
      and "falsy q_schema"
  shows "snd (get_data rt drv conns dbId tableName q_schema q_limit q_offset)
     = snd (query rt drv conns dbId
         (''SELECT TOP '' @ number_toString rt (parseInt rt (or_str q_limit ''1000'')) @ '' * FROM ''
            @ tableName @ '' OFFSET '' @ number_toString rt (parseInt rt (or_str q_offset ''0'')) @ '' ROWS'')
         [Number (parseInt rt (or_str q_limit ''1000'')), Number (parseInt rt (or_str q_offset ''0''))])"
  using assms by (auto simp: get_data_def Let_def is_postgres_def split: prod.splits sum.splits)

lemma get_data_rows:
  assumes "getConnection conns dbId = Inr d" and "type d = ''mysql''"
      and "connection d = Some c"
      and "pool_execute drv c (''SELECT * FROM '' @ tableName @ '' LIMIT ? OFFSET ?'')
             [Number (parseInt rt (or_str q_limit ''1000'')), Number (parseInt rt (or_str q_offset ''0''))]
           = Inr rs"
  shows "fst (get_data rt drv conns dbId tableName q_schema q_limit q_offset)
     = Response 200 (Obj [(''rows'', Arr (map Obj rs)), (''count'', Number (Num (int (length rs))))])"
  using assms by (simp add: get_data_def Let_def is_postgres_def query_def dialect_of_def)

section \<open>Properties\<close>

subsection \<open>C1: updateRow with an unknown key\<close>

text \<open>
  Claim C1 says that an update whose payload has one key naming a column and one unknown
  key changes only the named column, and that the parameters bound are exactly the values
  of the kept keys followed by the primary-key value. The handler filters the keys for the
  \<open>SET\<close> clause but takes \<open>Object.values(data)\<close> unfiltered: on the postgres entry \<open>db1\<close>,
  table \<open>t(id, val)\<close> and data \<open>{bogus: 'y', val: 'x'}\<close> the driver receives
  \<open>UPDATE t SET val = $1 WHERE id = $3\<close> with the three parameters \<open>['y', 'x', 1]\<close>, so \<open>$1\<close>
  is the value of the unknown key.
\<close>

theorem put_row_binds_unfiltered_values:
  "snd (put_row example_runtime example_drivers (connections example_manager) ''db1'' ''t''
          \<lparr> primaryKey = Some ''id'', primaryValue = Number (Num 1),
            data = [(''bogus'', Str ''y''), (''val'', Str ''x'')] \<rparr>)
     = [Query (PgPool [(''host'', Str ''localhost''), (''port'', Number (Num 5432)),
                       (''user'', Undefined), (''password'', Undefined),
                       (''database'', Str ''app'')] False)
          (getTableSchema_query Postgres) [Str ''public'', Str ''t''],
        Query (PgPool [(''host'', Str ''localhost''), (''port'', Number (Num 5432)),
                       (''user'', Undefined), (''password'', Undefined),
                       (''database'', Str ''app'')] False)
          ''UPDATE t SET val = $1 WHERE id = $3'' [Str ''y'', Str ''x'', Number (Num 1)]]"
  by code_simp

subsection \<open>C3: the per-call connection of SQL Server\<close>

text \<open>
  Claim C3 says that the connection opened for a statement on an mssql entry is closed
  whether the statement succeeds or fails. \<open>pool.close()\<close> follows the request inside the
  \<open>try\<close>, with no \<open>finally\<close>: when the request is rejected, the calls made are the
  connect and the request only, and the error is rethrown with the connection left open.
  (The statement text is issued without the parameters in both cases.)
\<close>

theorem query_mssql_failure_skips_close:
  "query example_runtime example_drivers (connections example_manager) ''erp''
       ''SELECT * FROM missing'' []
     = (Inl (new_Error ''Query failed: Incorrect syntax''),
        [Connect (Obj [(''server'', Str ''sql.local''), (''port'', Number (Num 0)),
                       (''user'', Undefined), (''password'', Undefined), (''database'', Undefined),
                       (''options'', Obj [(''encrypt'', Bool True),
                                          (''trustServerCertificate'', Bool True)])]),
         Request ''SELECT * FROM missing''])"
  by code_simp

subsection \<open>C4: the SQL Server configuration object\<close>

text \<open>
  Claim C4 says that \<open>trustServerCertificate\<close> is true whatever the options of the
  descriptor say. The options are spread after the two defaults, so they override them: a
  descriptor whose options set \<open>trustServerCertificate\<close> to false gets a configuration
  with \<open>trustServerCertificate\<close> false.
\<close>

theorem createConnection_mssql_trust_overridden:
  "createConnection example_runtime example_drivers
       (mssql_descriptor (Obj [(''trustServerCertificate'', Bool False)]))
     = Inr (MssqlConfig
         [(''server'', Str ''sql.local''), (''port'', Number (Num 1433)),
          (''user'', Str ''sa''), (''password'', Str ''secret''), (''database'', Str ''erp''),
          (''options'', Obj [(''encrypt'', Bool True), (''trustServerCertificate'', Bool False)])])"
  by (simp add: createConnection_def mssql_descriptor_def dialect_of_def spread_def own_props_def
      get_prop_def opt_str_def)

text \<open>
  Claim C4, amended: for an mssql descriptor whose options are an object,
  \<open>createConnection\<close> returns the configuration object whatever the drivers do (no driver
  is called); in its \<open>options\<close>, \<open>encrypt\<close> and \<open>trustServerCertificate\<close> are each true
  when the descriptor's options do not set them and the descriptor's value when they do
  (so \<open>encrypt\<close> is false when set to false).
\<close>

theorem createConnection_mssql_defaults:
  assumes mssql: "dialect_of (type config) = Some MSSQL"
      and obj: "options config = Obj opts"
      and wf: "distinct (map fst opts)"
  shows "\<exists>cfg opts'.
      (\<forall>drv. createConnection rt drv config = Inr (MssqlConfig cfg))
      \<and> map_of cfg ''options'' = Some (Obj opts')
      \<and> map_of opts' ''encrypt''
          = Some (case map_of opts ''encrypt'' of None \<Rightarrow> Bool True | Some v \<Rightarrow> v)
      \<and> map_of opts' ''trustServerCertificate''
          = Some (case map_of opts ''trustServerCertificate'' of None \<Rightarrow> Bool True | Some v \<Rightarrow> v)"
proof -
  let ?opts' = "spread (options config)
      [(''encrypt'', Bool (get_prop (options config) ''encrypt'' \<noteq> Bool False)),
       (''trustServerCertificate'', Bool True)]"
  let ?cfg = "[(''server'', opt_str (host config)),
      (''port'', Number (port config)),
      (''user'', opt_str (user config)),
      (''password'', opt_str (password config)),
      (''database'', opt_str (database config)),
      (''options'', Obj ?opts')]"
  have made: "createConnection rt drv config = Inr (MssqlConfig ?cfg)" for drv
    by (simp add: createConnection_def mssql obj)
  have nested: "map_of ?cfg ''options'' = Some (Obj ?opts')" by simp
  have enc: "map_of ?opts' ''encrypt''
      = Some (case map_of opts ''encrypt'' of None \<Rightarrow> Bool True | Some v \<Rightarrow> v)"
    by (auto simp: obj map_of_spread_Obj[OF wf] get_prop_def split: option.splits)
  have trust: "map_of ?opts' ''trustServerCertificate''
      = Some (case map_of opts ''trustServerCertificate'' of None \<Rightarrow> Bool True | Some v \<Rightarrow> v)"
    by (auto simp: obj map_of_spread_Obj[OF wf] split: option.splits)
  from made nested enc trust show ?thesis by blast
qed

text \<open>
  Witness for C4: the amended claim at a descriptor whose options are \<open>{encrypt: false}\<close>.
\<close>

theorem createConnection_mssql_defaults_witness:
  "\<exists>cfg opts'.
      (\<forall>drv. createConnection example_runtime drv (mssql_descriptor (Obj [(''encrypt'', Bool False)]))
         = Inr (MssqlConfig cfg))
      \<and> map_of cfg ''options'' = Some (Obj opts')
      \<and> map_of opts' ''encrypt'' = Some (Bool False)
      \<and> map_of opts' ''trustServerCertificate'' = Some (Bool True)"
proof -
  have mssql: "dialect_of (type (mssql_descriptor (Obj [(''encrypt'', Bool False)]))) = Some MSSQL"
    by (simp add: mssql_descriptor_def dialect_of_def)
  have obj: "options (mssql_descriptor (Obj [(''encrypt'', Bool False)])) = Obj [(''encrypt'', Bool False)]"
    by (simp add: mssql_descriptor_def)
  have wf: "distinct (map fst [(''encrypt'', Bool False)])" by simp
  from createConnection_mssql_defaults[OF mssql obj wf, of example_runtime] show ?thesis by simp
qed

subsection \<open>C5: one registry entry per descriptor\<close>

text \<open>
  Claim C5: started on an empty registry with a descriptor list whose ids are pairwise
  different, \<open>initializeConnections\<close> leaves exactly one entry per descriptor, in the
  order of the descriptors, whatever the drivers do. The entry of a descriptor whose
  connection could not be created has status error, no handle and the message of the
  error; the other descriptors are connected.
\<close>

theorem initializeConnections_one_entry_per_descriptor:
  assumes empty: "connections st = []"
      and parsed: "dbConfigs = parseEnvConfigs rt (reloadEnv file (process_env st))"
      and valid: "distinct (map id' dbConfigs)"
  shows "length (connections (initializeConnections rt drv file st)) = length dbConfigs
     \<and> map fst (connections (initializeConnections rt drv file st)) = map id' dbConfigs
     \<and> (\<forall>c \<in> set dbConfigs. \<exists>d.
          map_of (connections (initializeConnections rt drv file st)) (id' c) = Some d
          \<and> config.truncate d = c
          \<and> (case createConnection rt drv c of
                Inl e \<Rightarrow> status d = StatusError \<and> connection d = None \<and> error d = Some (message e)
              | Inr h \<Rightarrow> status d = StatusConnected \<and> connection d = Some h \<and> error d = None))"
proof -
  let ?conns = "connections (initializeConnections rt drv file st)"
  have eq: "?conns = map (\<lambda>c. (id' c, entry_for rt drv c)) dbConfigs"
    using fold_connect_config_fresh[OF valid, of "[]" rt drv]
    by (simp add: initializeConnections_def Let_def empty parsed)
  have keys: "map fst ?conns = map id' dbConfigs"
    by (simp add: eq comp_def)
  have len: "length ?conns = length dbConfigs"
    by (simp add: eq)
  have each: "\<exists>d. map_of ?conns (id' c) = Some d \<and> config.truncate d = c
          \<and> (case createConnection rt drv c of
                Inl e \<Rightarrow> status d = StatusError \<and> connection d = None \<and> error d = Some (message e)
              | Inr h \<Rightarrow> status d = StatusConnected \<and> connection d = Some h \<and> error d = None)"
    if "c \<in> set dbConfigs" for c
  proof -
    have "(id' c, entry_for rt drv c) \<in> set ?conns" using that by (auto simp: eq)
    moreover have "distinct (map fst ?conns)" using keys valid by simp
    ultimately have "map_of ?conns (id' c) = Some (entry_for rt drv c)"
      by (simp add: map_of_is_SomeI)
    then show ?thesis
      using entry_for_fields[of rt drv c] by (auto split: sum.splits)
  qed
  from len keys each show ?thesis by blast
qed

text \<open>
  Witness for C5: the example installation has four descriptors, of which the last fails.
\<close>

theorem initializeConnections_one_entry_per_descriptor_witness:
  "length (connections (initializeConnections example_runtime example_drivers example_file
       initial_manager)) = 4
   \<and> map fst (connections (initializeConnections example_runtime example_drivers example_file
       initial_manager)) = [''db1'', ''db_2'', ''erp'', ''db_4'']"
proof -
  have empty: "connections initial_manager = []"
    by (simp add: initial_manager_def)
  have valid: "distinct (map id'
      (parseEnvConfigs example_runtime (reloadEnv example_file (process_env initial_manager))))"
    by code_simp
  have ids: "map id'
      (parseEnvConfigs example_runtime (reloadEnv example_file (process_env initial_manager)))
      = [''db1'', ''db_2'', ''erp'', ''db_4'']"
    by code_simp
  then have "length (map id'
      (parseEnvConfigs example_runtime (reloadEnv example_file (process_env initial_manager)))) = 4"
    by simp
  then have len: "length
      (parseEnvConfigs example_runtime (reloadEnv example_file (process_env initial_manager))) = 4"
    by simp
  from initializeConnections_one_entry_per_descriptor[OF empty refl valid, of example_drivers] ids len show ?thesis by simp
qed

subsection \<open>C6: reloading twice\<close>

text \<open>
  Claim C6: with the same \<open>.env\<close> file, runtime and drivers, a second \<open>reloadConnections\<close>
  right after a first gives the same \<open>getAllConnections\<close> list (ids, names, types, statuses
  and errors, in order) as the first, whatever the manager held before.
\<close>

theorem reloadConnections_list_idempotent:
  "getAllConnections (fst (reloadConnections rt drv file (fst (reloadConnections rt drv file st))))
     = getAllConnections (fst (reloadConnections rt drv file st))"
  by (simp only: reloadConnections_idem)

text \<open>
  A reload of the example installation: the list it gives and the pools it ends.
\<close>

lemma reloadConnections_example:
  "getAllConnections (fst (reloadConnections example_runtime example_drivers example_file
       example_manager))
     = [Obj [(''id'', Str ''db1''), (''name'', Str ''Database 1''), (''type'', Str ''postgres''),
             (''status'', Str ''connected''), (''error'', Null)],
        Obj [(''id'', Str ''db_2''), (''name'', Str ''Database 2''), (''type'', Str ''mysql''),
             (''status'', Str ''connected''), (''error'', Null)],
        Obj [(''id'', Str ''erp''), (''name'', Str ''Database 3''), (''type'', Str ''mssql''),
             (''status'', Str ''connected''), (''error'', Null)],
        Obj [(''id'', Str ''db_4''), (''name'', Str ''Database 4''), (''type'', Str ''oracle''),
             (''status'', Str ''error''), (''error'', Str ''Unsupported database type: oracle'')]]
     \<and> snd (reloadConnections example_runtime example_drivers example_file example_manager)
     = [End (PgPool [(''host'', Str ''localhost''), (''port'', Number (Num 5432)),
                     (''user'', Undefined), (''password'', Undefined),
                     (''database'', Str ''app'')] False),
        End (MysqlPool [(''host'', Undefined), (''port'', Number (Num 0)),
                        (''user'', Undefined), (''password'', Undefined),
                        (''database'', Str ''shop''), (''waitForConnections'', Bool True),
                        (''connectionLimit'', Number (Num 10))])]"
  by code_simp

subsection \<open>C7: looking an entry up\<close>

text \<open>
  Claim C7: \<open>getConnection\<close> fails with \<open>Database <id> not found\<close> when the registry has
  no entry for the id, fails with \<open>Database <id> is not connected: <message>\<close> when the
  entry has status error and stored message \<open>message\<close>, and returns the entry when it is
  connected. An entry in error that stores no message, or an empty one, is reported with
  \<open>Unknown error\<close> in its place (\<open>initializeConnections\<close> always stores the message of the
  error it caught).
\<close>

theorem getConnection_outcomes:
  "(map_of conns dbId = None \<longrightarrow>
      getConnection conns dbId = Inl (new_Error (''Database '' @ dbId @ '' not found'')))
   \<and> (\<forall>d m. map_of conns dbId = Some d \<and> status d = StatusError \<and> error d = Some m \<and> m \<noteq> [] \<longrightarrow>
      getConnection conns dbId
        = Inl (new_Error (''Database '' @ dbId @ '' is not connected: '' @ m)))
   \<and> (\<forall>d. map_of conns dbId = Some d \<and> status d = StatusError \<and> falsy (error d) \<longrightarrow>
      getConnection conns dbId
        = Inl (new_Error (''Database '' @ dbId @ '' is not connected: Unknown error'')))
   \<and> (\<forall>d. map_of conns dbId = Some d \<and> status d = StatusConnected \<longrightarrow>
      getConnection conns dbId = Inr d)"
  by (auto simp: getConnection_def or_str_def falsy_def)

text \<open>
  Witness for C7: the outcomes on the example installation, and on an entry in error that
  stores no message.
\<close>

theorem getConnection_outcomes_witness:
  "getConnection (connections example_manager) ''nope''
     = Inl (new_Error ''Database nope not found'')
   \<and> getConnection (connections example_manager) ''db_4''
     = Inl (new_Error ''Database db_4 is not connected: Unsupported database type: oracle'')
   \<and> getConnection
       [(''erp'', config.extend (mssql_descriptor Null) (db.fields None StatusError None))] ''erp''
     = Inl (new_Error ''Database erp is not connected: Unknown error'')
   \<and> (\<exists>d. getConnection (connections example_manager) ''db1'' = Inr d \<and> type d = ''postgres'')"
proof -
  have absent: "map_of (connections example_manager) ''nope'' = None"
    by code_simp
  have "case map_of (connections example_manager) ''db_4'' of
          None \<Rightarrow> False
        | Some d \<Rightarrow> status d = StatusError \<and> error d = Some ''Unsupported database type: oracle''"
    by code_simp
  then obtain d4 where d4: "map_of (connections example_manager) ''db_4'' = Some d4"
    and s4: "status d4 = StatusError" and e4: "error d4 = Some ''Unsupported database type: oracle''"
    by (auto split: option.splits)
  have "case map_of (connections example_manager) ''db1'' of
          None \<Rightarrow> False
        | Some d \<Rightarrow> status d = StatusConnected \<and> type d = ''postgres''"
    by code_simp
  then obtain d1 where d1: "map_of (connections example_manager) ''db1'' = Some d1"
    and s1: "status d1 = StatusConnected" and t1: "type d1 = ''postgres''"
    by (auto split: option.splits)
  let ?bare = "config.extend (mssql_descriptor Null) (db.fields None StatusError None)"
  have bare: "map_of [(''erp'', ?bare)] ''erp'' = Some ?bare" "status ?bare = StatusError"
      "falsy (error ?bare)"
    by (simp_all add: config.extend_def db.fields_def mssql_descriptor_def falsy_def)
  from absent getConnection_outcomes[of "connections example_manager" "''nope''"]
  have 1: "getConnection (connections example_manager) ''nope''
     = Inl (new_Error ''Database nope not found'')"
    by simp
  from d4 s4 e4 getConnection_outcomes[of "connections example_manager" "''db_4''"]
  have 2: "getConnection (connections example_manager) ''db_4''
     = Inl (new_Error ''Database db_4 is not connected: Unsupported database type: oracle'')"
    by simp
  from bare getConnection_outcomes[of "[(''erp'', ?bare)]" "''erp''"]
  have 3: "getConnection [(''erp'', ?bare)] ''erp''
     = Inl (new_Error ''Database erp is not connected: Unknown error'')"
    by simp
  from d1 s1 getConnection_outcomes[of "connections example_manager" "''db1''"]
  have "getConnection (connections example_manager) ''db1'' = Inr d1"
    by simp
  with t1 have 4: "\<exists>d. getConnection (connections example_manager) ''db1'' = Inr d \<and> type d = ''postgres''"
    by blast
  from 1 2 3 4 show ?thesis by blast
qed

subsection \<open>C8: the config parser\<close>

text \<open>
  Claim C8 says that the parser stops at the first index whose \<open>TYPE\<close> variable is
  absent. The loop tests \<open>!type\<close>, which also holds of the empty string: with
  \<open>DB_1_TYPE\<close> set to the empty string and \<open>DB_2_TYPE=mysql\<close>, no \<open>TYPE\<close> variable is absent
  before index 3, and the parser returns no descriptor.
\<close>

theorem parseEnvConfigs_blank_type_stops:
  "fmlookup env_blank_type (env_key 1 ''TYPE'') \<noteq> None
   \<and> fmlookup env_blank_type (env_key 2 ''TYPE'') = Some ''mysql''
   \<and> parseEnvConfigs example_runtime env_blank_type = []"
  by (simp add: env_blank_type_def env_key_def dec.simps digit_def parseEnvConfigs_def parse_loop.simps)

text \<open>
  Claim C8, amended: the parser reads the groups from index 1 and stops at the first
  index whose \<open>TYPE\<close> variable is absent or empty. If the variable is set and non-empty
  for the indices 1 to \<open>n\<close> and not for \<open>n + 1\<close>, the result is the descriptors of the
  indices 1 to \<open>n\<close> in this order, whatever is set beyond the gap; a group whose
  \<open>OPTIONS\<close> text \<open>JSON.parse\<close> rejects gets the empty options and the parse goes on.
\<close>

theorem parseEnvConfigs_upto_first_gap:
  assumes present: "\<forall>i. 1 \<le> i \<and> i \<le> n \<longrightarrow> \<not> falsy (fmlookup env (env_key i ''TYPE''))"
      and gap: "falsy (fmlookup env (env_key (Suc n) ''TYPE''))"
  shows "parseEnvConfigs rt env = map (\<lambda>i. config_of_group rt env i (type_at env i)) [1..<Suc n]
    \<and> (\<forall>i s. 1 \<le> i \<and> i \<le> n \<and> fmlookup env (env_key i ''OPTIONS'') = Some s \<and> JSON_parse rt s = None
          \<longrightarrow> options (parseEnvConfigs rt env ! (i - 1)) = Obj [])"
proof -
  have p: "\<forall>i. 1 \<le> i \<and> i < 1 + n \<longrightarrow> \<not> falsy (fmlookup env (env_key i ''TYPE''))"
    using present by simp
  have g: "falsy (fmlookup env (env_key (1 + n) ''TYPE''))" using gap by simp
  have eq: "parseEnvConfigs rt env = map (\<lambda>i. config_of_group rt env i (type_at env i)) [1..<Suc n]"
    unfolding parseEnvConfigs_def using parse_loop_run[OF p g, of rt "[]"] by simp
  have "options (parseEnvConfigs rt env ! (i - 1)) = Obj []"
    if "1 \<le> i" "i \<le> n" "fmlookup env (env_key i ''OPTIONS'') = Some s" "JSON_parse rt s = None" for i s
  proof -
    have "parseEnvConfigs rt env ! (i - 1) = config_of_group rt env i (type_at env i)"
    proof -
      have "i - 1 < length [1..<Suc n]" using that(1,2) by simp
      then have "map (\<lambda>i. config_of_group rt env i (type_at env i)) [1..<Suc n] ! (i - 1)
          = config_of_group rt env ([1..<Suc n] ! (i - 1)) (type_at env ([1..<Suc n] ! (i - 1)))"
        by (rule nth_map)
      moreover have "[1..<Suc n] ! (i - 1) = i"
        using that(1,2) by (simp add: nth_upt del: upt_Suc)
      ultimately show ?thesis by (simp only: eq)
    qed
    then show ?thesis using that(3,4) by (simp add: config_of_group_bad_options)
  qed
  with eq show ?thesis by blast
qed

text \<open>
  Witness for C8: an environment with groups 1, 2 and 4, the first with malformed options.
\<close>

theorem parseEnvConfigs_upto_first_gap_witness:
  "length (parseEnvConfigs example_runtime env_with_gap) = 2
   \<and> map id' (parseEnvConfigs example_runtime env_with_gap) = [''db_1'', ''shop'']
   \<and> map type (parseEnvConfigs example_runtime env_with_gap) = [''postgres'', ''mysql'']
   \<and> options (parseEnvConfigs example_runtime env_with_gap ! 0) = Obj []"
proof -
  have k: "env_key (Suc 0) f = ''DB_1_'' @ f" "env_key 2 f = ''DB_2_'' @ f" "env_key 3 f = ''DB_3_'' @ f" for f
    by (simp_all add: env_key_def dec.simps digit_def)
  have present: "\<forall>i. 1 \<le> i \<and> i \<le> 2 \<longrightarrow> \<not> falsy (fmlookup env_with_gap (env_key i ''TYPE''))"
  proof (intro allI impI)
    fix i :: nat
    assume "1 \<le> i \<and> i \<le> 2"
    then have "i = 1 \<or> i = 2" by auto
    then show "\<not> falsy (fmlookup env_with_gap (env_key i ''TYPE''))"
      by (auto simp: k env_with_gap_def falsy_def)
  qed
  have gap: "falsy (fmlookup env_with_gap (env_key (Suc 2) ''TYPE''))"
    using k(3)[of "''TYPE''"] by (simp add: env_with_gap_def falsy_def eval_nat_numeral)
  have bad: "fmlookup env_with_gap (env_key 1 ''OPTIONS'') = Some ''{bad''"
      "JSON_parse example_runtime ''{bad'' = None"
    by (simp_all add: k env_with_gap_def example_runtime_def)
  note r = parseEnvConfigs_upto_first_gap[OF present gap, of example_runtime]
  from r have "1 \<le> (1::nat) \<and> (1::nat) \<le> 2
      \<and> fmlookup env_with_gap (env_key 1 ''OPTIONS'') = Some ''{bad''
      \<and> JSON_parse example_runtime ''{bad'' = None
      \<longrightarrow> options (parseEnvConfigs example_runtime env_with_gap ! (1 - 1)) = Obj []"
    by (elim conjE allE) 
  with bad have "options (parseEnvConfigs example_runtime env_with_gap ! 0) = Obj []"
    by simp
  moreover from r have "parseEnvConfigs example_runtime env_with_gap =
      map (\<lambda>i. config_of_group example_runtime env_with_gap i (type_at env_with_gap i)) [1..<Suc 2]"
    by simp
  moreover have "[1..<Suc 2] = [Suc 0, 2]"
    by code_simp
  ultimately have "options (parseEnvConfigs example_runtime env_with_gap ! 0) = Obj []"
    and "parseEnvConfigs example_runtime env_with_gap =
      [config_of_group example_runtime env_with_gap (Suc 0) (type_at env_with_gap (Suc 0)),
       config_of_group example_runtime env_with_gap 2 (type_at env_with_gap 2)]"
    by simp_all
  then have "options (parseEnvConfigs example_runtime env_with_gap ! 0) = Obj []"
    and "length (parseEnvConfigs example_runtime env_with_gap) = 2"
    and "map id' (parseEnvConfigs example_runtime env_with_gap) = [''db_1'', ''shop'']"
    and "map type (parseEnvConfigs example_runtime env_with_gap) = [''postgres'', ''mysql'']"
    by (simp_all add: config_of_group_def type_at_def k env_with_gap_def or_str_def
        example_runtime_def ascii_lower_def dec.simps digit_def)
  then show ?thesis by simp
qed

subsection \<open>C9: the schema of the column query\<close>

text \<open>
  Claim C9 says that \<open>getTableSchema\<close> called without a schema scopes the column query to
  \<open>public\<close> on postgres and to \<open>dbo\<close> on mssql, and on mysql to the entry's database name
  whatever schema is passed. On postgres and mysql the name is bound as a parameter. On
  mssql \<open>getTableSchema\<close> hands \<open>['dbo', tableName]\<close> to \<open>query\<close>, whose mssql branch sends the
  statement text alone: on the entry \<open>erp\<close> the driver is asked to connect and to run the
  text with both \<open>?\<close> marks unbound, and a call for table \<open>orders\<close> in schema \<open>sales\<close> does
  exactly what the call for table \<open>t\<close> without a schema does.
\<close>

theorem getTableSchema_mssql_sends_unbound_text:
  "snd (getTableSchema example_runtime example_drivers (connections example_manager)
          ''erp'' ''t'' None)
     = [Connect (Obj [(''server'', Str ''sql.local''), (''port'', Number (Num 0)),
                      (''user'', Undefined), (''password'', Undefined), (''database'', Undefined),
                      (''options'', Obj [(''encrypt'', Bool True),
                                         (''trustServerCertificate'', Bool True)])]),
        Request (getTableSchema_query MSSQL)]
   \<and> getTableSchema example_runtime example_drivers (connections example_manager)
          ''erp'' ''t'' None
     = getTableSchema example_runtime example_drivers (connections example_manager)
          ''erp'' ''orders'' (Some ''sales'')"
  by code_simp

subsection \<open>C10: connected entries have a known dialect\<close>



end
